theory Spec2Isabelle
  imports Main
begin

section \<open>Strings\<close>

text \<open>
  JavaScript strings are modelled as \<^typ>\<open>string\<close>; one \<^typ>\<open>char\<close> stands for one
  code point, which is what \<^verbatim>\<open>for (const word of words)\<close> iterates over.
\<close>

definition is_w :: "char \<Rightarrow> bool" where
  "is_w c = (c = CHR ''w'' \<or> c = CHR ''W'')"

definition is_x :: "char \<Rightarrow> bool" where
  "is_x c = (c = CHR ''x'' \<or> c = CHR ''X'')"

text \<open>\<^verbatim>\<open>/wx/i.test(name)\<close>: the pattern is not anchored, it matches anywhere in the string.\<close>

fun test_wx :: "string \<Rightarrow> bool" where
  "test_wx (a # b # r) = ((is_w a \<and> is_x b) \<or> test_wx (b # r))"
| "test_wx r = False"

definition is_digit :: "char \<Rightarrow> bool" where
  "is_digit c = (48 \<le> (of_char c :: nat) \<and> (of_char c :: nat) \<le> 57)"

definition digit_value :: "char \<Rightarrow> nat" where
  "digit_value c = (of_char c :: nat) - 48"

text \<open>
  White space as \<^verbatim>\<open>Number(...)\<close> strips it: TAB, LF, VT, FF, CR, SP and NBSP are the
  code points below 256.
\<close>

definition is_white :: "char \<Rightarrow> bool" where
  "is_white c = ((of_char c :: nat) \<in> {9, 10, 11, 12, 13, 32, 160})"

text \<open>
  \<^verbatim>\<open>parseFloat(n)\<close> on a string of one code point: the longest prefix that is a decimal
  literal is a digit or nothing; \<open>None\<close> is NaN.
\<close>

definition parseFloat_char :: "char \<Rightarrow> nat option" where
  "parseFloat_char c = (if is_digit c then Some (digit_value c) else None)"

text \<open>
  \<^verbatim>\<open>isFinite(n)\<close> converts with \<^verbatim>\<open>Number(n)\<close>: a digit is its value, white space
  alone is 0, anything else is NaN.
\<close>

definition isFinite_char :: "char \<Rightarrow> bool" where
  "isFinite_char c = (is_digit c \<or> is_white c)"

definition isNumeric :: "char \<Rightarrow> bool" where
  "isNumeric n = (parseFloat_char n \<noteq> None \<and> isFinite_char n)"

definition NumberWords :: "string list" where
  "NumberWords = [''z'', ''b'', ''c'', ''d'', ''e'', ''f'', ''g'', ''h'', ''i'', ''j'', ''k'']"

text \<open>
  \<^verbatim>\<open>NumberWords[word]\<close>: the property named by the string \<open>word\<close>. It is an element
  of the array when \<open>word\<close> is an index in range and \<^verbatim>\<open>undefined\<close> (\<open>None\<close>) otherwise.
\<close>

definition NumberWords_at :: "char \<Rightarrow> string option" where
  "NumberWords_at word =
     (if is_digit word \<and> digit_value word < length NumberWords
      then Some (NumberWords ! digit_value word) else None)"

section \<open>buildTemplateName\<close>

text \<open>The loop over \<open>words\<close> pushing onto the array \<open>str\<close>.\<close>

fun push_words :: "string \<Rightarrow> string option list \<Rightarrow> string option list" where
  "push_words [] str = str"
| "push_words (word # rest) str =
     push_words rest (str @ [if isNumeric word then NumberWords_at word else Some [word]])"

text \<open>\<^verbatim>\<open>str.join('')\<close>; an \<^verbatim>\<open>undefined\<close> element is joined as the empty string.\<close>

definition join_empty :: "string option list \<Rightarrow> string" where
  "join_empty str = concat (map (\<lambda>e. case e of None \<Rightarrow> [] | Some s \<Rightarrow> s) str)"

text \<open>
  \<^verbatim>\<open>const words = pascal ? pascalName(name + '-tmpl') : name + '-tmpl'\<close>.
  \<open>pascalName\<close> comes from the module \<^verbatim>\<open>./utils\<close> and is a parameter here.
\<close>

definition tmpl_words :: "(string \<Rightarrow> string) \<Rightarrow> string \<Rightarrow> bool \<Rightarrow> string" where
  "tmpl_words pascalName name pascal =
     (if pascal then pascalName (name @ ''-tmpl'') else name @ ''-tmpl'')"

text \<open>
  The recursive call passes one argument, so \<open>pascal\<close> takes its default \<open>true\<close> there.
  \<open>None\<close> is the recursion that never reaches the second branch.
\<close>

partial_function (option) buildTemplateName ::
  "(string \<Rightarrow> string) \<Rightarrow> string \<Rightarrow> bool \<Rightarrow> string option" where
  "buildTemplateName pascalName name pascal =
     (if test_wx name
      then buildTemplateName pascalName (''taro-'' @ drop 2 name) True
      else Some (join_empty (push_words (tmpl_words pascalName name pascal) [])))"

section \<open>Errors\<close>

text \<open>
  The messages of the source are Chinese text; each is named here by what it says. A
  thrown \<^verbatim>\<open>new Error(msg)\<close> is \<open>Error\<close>; a thrown \<^verbatim>\<open>new IReportError(msg, kind,
  'WXML_FILE', code, position)\<close> is \<open>IReportError\<close> with the same five arguments.
  \<open>ReferenceError\<close> is what the traversal library throws when a path without a
  container is edited.
\<close>

datatype module_type = Include | Import

datatype message =
    SrcPathNotFound string
  | TemplateNameNotString
  | TemplateIsEmpty
  | TemplateIsBranchesNotStrings
  | TemplateMissingIsName
  | TagWithoutSrc module_type
  | TagSrcWithoutNode module_type
  | TagSrcNotString module_type
  | RelativePathFailed

datatype error_kind =
    TemplateNameTypeMismatchError
  | TemplateIsAttributeEmptyError
  | TemplateIsAttributeTypeMismatchError
  | TemplateMissingIsNameError
  | WxmlTagSrcAttributeError
  | ImportSrcPathFormatError

record position =
  col :: nat
  row :: nat

datatype error =
    Error message
  | IReportError message error_kind string string position
  | ReferenceError

fun kind_of :: "error \<Rightarrow> error_kind option" where
  "kind_of (Error m) = None"
| "kind_of (IReportError m k s c p) = Some k"
| "kind_of ReferenceError = None"

section \<open>Paths and files\<close>

text \<open>
  The functions of \<^verbatim>\<open>node:path\<close>, the file system of \<^verbatim>\<open>@tarojs/helper\<close> and
  \<^verbatim>\<open>setting.rootPath\<close> are parameters. \<open>readFileSync\<close> is \<open>None\<close> where the read
  throws.
\<close>

record sys =
  rootPath :: string
  path_join :: "string \<Rightarrow> string \<Rightarrow> string"
  path_relative :: "string \<Rightarrow> string \<Rightarrow> string"
  path_extname :: "string \<Rightarrow> string"
  path_dirname :: "string \<Rightarrow> string"
  path_resolve :: "string \<Rightarrow> string \<Rightarrow> string"
  existsSync :: "string \<Rightarrow> bool"
  readFileSync :: "string \<Rightarrow> string option"

definition startsWith :: "string \<Rightarrow> string \<Rightarrow> bool" where
  "startsWith s p = (take (length p) s = p)"

text \<open>\<^verbatim>\<open>relativePath.replace(/\\/g, '/')\<close>.\<close>

definition backslash_to_slash :: "string \<Rightarrow> string" where
  "backslash_to_slash s = map (\<lambda>c. if c = CHR 0x5C then CHR ''/'' else c) s"

definition getSrcRelPath :: "sys \<Rightarrow> string \<Rightarrow> string \<Rightarrow> error + string" where
  "getSrcRelPath sy dirPath srcPath =
     (if startsWith srcPath ''/'' then
        (let absolutPath = path_join sy (rootPath sy) (drop 1 srcPath) in
         if \<not> existsSync sy absolutPath \<and> \<not> existsSync sy (absolutPath @ ''.wxml'')
         then Inl (Error (SrcPathNotFound srcPath))
         else
           (let relativePath = backslash_to_slash (path_relative sy dirPath absolutPath) in
            if \<not> startsWith relativePath ''.''
            then Inr (''./'' @ relativePath)
            else Inr relativePath))
      else Inr srcPath)"

section \<open>The JSX tree\<close>

text \<open>
  The nodes of \<^verbatim>\<open>@babel/types\<close> that the source inspects or builds. A string literal
  that is the value of an attribute is \<open>StringLiteralValue\<close>, one that is an expression is
  \<open>StringLiteral\<close>. \<open>OtherExpression k ns\<close> stands for a node of any other kind \<open>k\<close>
  (a logical or binary expression, an arrow function, a template literal and so on), which
  the source never looks into, with its child nodes \<open>ns\<close> in the order a traversal
  enters them. \<open>position\<close> is the start (line, column) that the WXML parser may
  have attached to a node.
\<close>

datatype jsx_name = JSXIdentifier string | JSXNamespacedName string string

datatype expression =
    StringLiteral string
  | Identifier string
  | ThisExpression
  | NullLiteral
  | MemberExpression expression expression
  | ConditionalExpression expression expression expression
  | CallExpression expression "expression list"
  | ObjectExpression "expression list"
  | JSXEmptyExpression
  | JSXElementExpression jsx_element
  | OtherExpression string "expression list"
and jsx_attribute_value =
    StringLiteralValue string
  | JSXExpressionContainer expression
  | JSXElementValue jsx_element
and jsx_attribute =
    JSXAttribute jsx_name "jsx_attribute_value option"
  | JSXSpreadAttribute expression
and jsx_child =
    JSXElementChild jsx_element
  | JSXExpressionContainerChild expression
  | JSXText string
and jsx_opening_element =
    JSXOpeningElement (elementName: jsx_name) (attributes: "jsx_attribute list")
      (openingPosition: "(nat \<times> nat) option")
and jsx_element =
    JSXElement (openingElement: jsx_opening_element) (closingElement: "jsx_name option")
      (children: "jsx_child list") (selfClosing: bool) (position: "(nat \<times> nat) option")

text \<open>
  \<^verbatim>\<open>const { line, column } = node?.position?.start || { line: 0, column: 0 }\<close> and
  \<^verbatim>\<open>{ col: column, row: line }\<close>.
\<close>

definition position_of :: "(nat \<times> nat) option \<Rightarrow> position" where
  "position_of p =
     (case p of None \<Rightarrow> \<lparr> col = 0, row = 0 \<rparr>
      | Some (line, column) \<Rightarrow> \<lparr> col = column, row = line \<rparr>)"

text \<open>
  The predicate of every \<^verbatim>\<open>attrs.find(...)\<close>: a JSXAttribute whose name is a
  JSXIdentifier equal to \<open>n\<close>.
\<close>

fun isJSXAttributeNamed :: "string \<Rightarrow> jsx_attribute \<Rightarrow> bool" where
  "isJSXAttributeNamed n (JSXAttribute (JSXIdentifier s) v) = (s = n)"
| "isJSXAttributeNamed n a = False"

definition find_attribute :: "string \<Rightarrow> jsx_element \<Rightarrow> jsx_attribute option" where
  "find_attribute n el = find (isJSXAttributeNamed n) (attributes (openingElement el))"

text \<open>\<^verbatim>\<open>attr.node.value\<close> of an attribute found; \<open>None\<close> is \<^verbatim>\<open>null\<close>.\<close>

fun attribute_value :: "jsx_attribute \<Rightarrow> jsx_attribute_value option" where
  "attribute_value (JSXAttribute n v) = v"
| "attribute_value (JSXSpreadAttribute e) = None"

fun isJSXAttribute :: "jsx_attribute \<Rightarrow> bool" where
  "isJSXAttribute (JSXAttribute n v) = True"
| "isJSXAttribute (JSXSpreadAttribute e) = False"

fun isStringLiteral :: "expression \<Rightarrow> bool" where
  "isStringLiteral (StringLiteral s) = True"
| "isStringLiteral e = False"

text \<open>\<^verbatim>\<open>t.isConditional\<close>; the only conditional that is an expression.\<close>

fun isConditional :: "expression \<Rightarrow> bool" where
  "isConditional (ConditionalExpression c a b) = True"
| "isConditional e = False"

text \<open>
  A path of the traversal: \<open>container\<close> is whether \<^verbatim>\<open>path.container\<close> is set, \<open>node\<close>
  is \<^verbatim>\<open>path.node\<close>. The type of \<open>node\<close> makes \<^verbatim>\<open>path.isJSXElement()\<close> true. What
  a call does to the tree at the place of the path is a \<open>tree_edit\<close>.
\<close>

record node_path =
  container :: bool
  node :: jsx_element

datatype tree_edit = Unchanged | ReplacedWith expression | Removed

text \<open>The nodes a traversal with \<^verbatim>\<open>path.traverse\<close> enters, in the order it enters them,
  restricted to the two kinds that preParseTemplate visits.\<close>

datatype visit = VisitAttribute jsx_attribute | VisitOpeningElement jsx_opening_element

fun visits_expression :: "expression \<Rightarrow> visit list"
  and visits_attribute_value :: "jsx_attribute_value \<Rightarrow> visit list"
  and visits_attribute :: "jsx_attribute \<Rightarrow> visit list"
  and visits_child :: "jsx_child \<Rightarrow> visit list"
  and visits_opening :: "jsx_opening_element \<Rightarrow> visit list"
  and visits_element :: "jsx_element \<Rightarrow> visit list" where
  "visits_expression (MemberExpression ob pr) = visits_expression ob @ visits_expression pr"
| "visits_expression (ConditionalExpression c a b) =
     visits_expression c @ visits_expression a @ visits_expression b"
| "visits_expression (CallExpression f args) =
     visits_expression f @ concat (map visits_expression args)"
| "visits_expression (ObjectExpression props) = concat (map visits_expression props)"
| "visits_expression (JSXElementExpression el) = visits_element el"
| "visits_expression (StringLiteral s) = []"
| "visits_expression (Identifier s) = []"
| "visits_expression ThisExpression = []"
| "visits_expression NullLiteral = []"
| "visits_expression JSXEmptyExpression = []"
| "visits_expression (OtherExpression k ns) = concat (map visits_expression ns)"
| "visits_attribute_value (StringLiteralValue s) = []"
| "visits_attribute_value (JSXExpressionContainer e) = visits_expression e"
| "visits_attribute_value (JSXElementValue el) = visits_element el"
| "visits_attribute (JSXAttribute n v) =
     VisitAttribute (JSXAttribute n v) #
       (case v of None \<Rightarrow> [] | Some w \<Rightarrow> visits_attribute_value w)"
| "visits_attribute (JSXSpreadAttribute e) = visits_expression e"
| "visits_child (JSXElementChild el) = visits_element el"
| "visits_child (JSXExpressionContainerChild e) = visits_expression e"
| "visits_child (JSXText s) = []"
| "visits_opening (JSXOpeningElement n attrs p) =
     VisitOpeningElement (JSXOpeningElement n attrs p) # concat (map visits_attribute attrs)"
| "visits_element (JSXElement oe ce ch sc p) =
     visits_opening oe @ concat (map visits_child ch)"

section \<open>Collaborators of the template functions\<close>

text \<open>
  \<open>pascalName\<close>, \<open>astToCode\<close>, \<open>buildBlockElement\<close> and \<open>buildRender\<close> come from the
  module \<^verbatim>\<open>./utils\<close> and are parameters; \<open>'m\<close> is the class method that
  \<open>buildRender\<close> builds. \<open>astToCode\<close> is \<open>None\<close> where it gives a falsy result, which
  \<^verbatim>\<open>astToCode(node) || ''\<close> turns into the empty string. Writing to the log file has
  no effect on any result and is left out.
\<close>

record 'm utils =
  pascalName :: "string \<Rightarrow> string"
  astToCode :: "jsx_element \<Rightarrow> string option"
  buildBlockElement :: jsx_element
  buildRender :: "jsx_element \<Rightarrow> string list \<Rightarrow> string list \<Rightarrow> string list option \<Rightarrow> 'm"

definition code_of :: "'m utils \<Rightarrow> jsx_element \<Rightarrow> string" where
  "code_of u n = (case astToCode u n of None \<Rightarrow> [] | Some s \<Rightarrow> s)"

text \<open>
  A result is \<open>None\<close> when a call of buildTemplateName inside never returns, \<open>Some (Inl e)\<close>
  when \<open>e\<close> is thrown and \<open>Some (Inr x)\<close> when \<open>x\<close> is returned.
\<close>

type_synonym 'a outcome = "(error + 'a) option"

text \<open>A \<^verbatim>\<open>Set\<close> is the list of its elements in insertion order.\<close>

definition set_add :: "'a \<Rightarrow> 'a list \<Rightarrow> 'a list" where
  "set_add x xs = (if x \<in> set xs then xs else xs @ [x])"

definition set_delete :: "'a \<Rightarrow> 'a list \<Rightarrow> 'a list" where
  "set_delete x xs = removeAll x xs"

section \<open>preParseTemplate\<close>

record template_info =
  pre_name :: string
  pre_funcs :: "string list"
  pre_applies :: "string list"

text \<open>
  The two visitors. \<open>outer\<close> is the node of the template, whose code goes into the error;
  the position is the one of the opening element visited.
\<close>

fun pre_visit ::
  "'m utils \<Rightarrow> jsx_element \<Rightarrow> visit \<Rightarrow> string list \<times> string list \<Rightarrow>
     (string list \<times> string list) outcome" where
  "pre_visit u outer (VisitAttribute a) (templateFuncs, templateApplies) =
     (case attribute_value a of
        Some (JSXExpressionContainer (MemberExpression ThisExpression (Identifier funcName))) \<Rightarrow>
          Some (Inr (if funcName \<notin> set templateFuncs
                     then (set_add funcName templateFuncs, templateApplies)
                     else (templateFuncs, templateApplies)))
      | _ \<Rightarrow> Some (Inr (templateFuncs, templateApplies)))"
| "pre_visit u outer (VisitOpeningElement oe) (templateFuncs, templateApplies) =
     (case find (isJSXAttributeNamed ''is'') (attributes oe) of
        None \<Rightarrow> Some (Inr (templateFuncs, templateApplies))
      | Some isAttr \<Rightarrow>
          (case attribute_value isAttr of
             None \<Rightarrow>
               Some (Inl (IReportError TemplateIsEmpty TemplateIsAttributeEmptyError
                 ''WXML_FILE'' (code_of u outer) (position_of (openingPosition oe))))
           | Some (StringLiteralValue v) \<Rightarrow>
               (case buildTemplateName (pascalName u) v True of
                  None \<Rightarrow> None
                | Some ap \<Rightarrow> Some (Inr (templateFuncs, set_add ap templateApplies)))
           | Some w \<Rightarrow> Some (Inr (templateFuncs, templateApplies))))"

fun pre_traverse ::
  "'m utils \<Rightarrow> jsx_element \<Rightarrow> visit list \<Rightarrow> string list \<times> string list \<Rightarrow>
     (string list \<times> string list) outcome" where
  "pre_traverse u outer [] st = Some (Inr st)"
| "pre_traverse u outer (v # vs) st =
     (case pre_visit u outer v st of
        None \<Rightarrow> None
      | Some (Inl e) \<Rightarrow> Some (Inl e)
      | Some (Inr st') \<Rightarrow> pre_traverse u outer vs st')"

text \<open>The result \<open>Some (Inr None)\<close> is the \<^verbatim>\<open>return\<close> without a value.\<close>

definition preParseTemplate :: "'m utils \<Rightarrow> node_path \<Rightarrow> template_info option outcome" where
  "preParseTemplate u path =
     (if \<not> container path then Some (Inr None)
      else
        (case find_attribute ''name'' (node path) of
           None \<Rightarrow> Some (Inr None)
         | Some nameAttr \<Rightarrow>
             (case attribute_value nameAttr of
                Some (StringLiteralValue v) \<Rightarrow>
                  (case buildTemplateName (pascalName u) v True of
                     None \<Rightarrow> None
                   | Some templateName \<Rightarrow>
                       (case pre_traverse u (node path) (visits_element (node path)) ([], []) of
                          None \<Rightarrow> None
                        | Some (Inl e) \<Rightarrow> Some (Inl e)
                        | Some (Inr (templateFuncs, templateApplies)) \<Rightarrow>
                            Some (Inr (Some \<lparr> pre_name = templateName,
                              pre_funcs = templateFuncs, pre_applies = templateApplies \<rparr>))))
              | other \<Rightarrow>
                  Some (Inl (IReportError TemplateNameNotString TemplateNameTypeMismatchError
                    ''WXML_FILE'' (code_of u (node path))
                    (position_of (position (node path))))))))"

section \<open>parseTemplate\<close>

record wxs =
  wxs_module :: string
  wxs_src :: string

text \<open>\<^verbatim>\<open>s.includes(sub)\<close>: \<open>sub\<close> occurs in \<open>s\<close> as a substring.\<close>

fun str_includes :: "string \<Rightarrow> string \<Rightarrow> bool" where
  "str_includes [] sub = (sub = [])"
| "str_includes (c # s) sub = (startsWith (c # s) sub \<or> str_includes s sub)"

text \<open>
  The two nested \<^verbatim>\<open>forEach\<close> loops over \<open>refIds\<close> and \<open>wxses\<close>. The state is the pair
  of \<open>usedWxses\<close> and \<open>refIds\<close>. The outer loop runs over the elements \<open>refIds\<close> had when
  it started: an element is deleted only while it is the one visited.
\<close>

fun wxses_forEach :: "string \<Rightarrow> wxs list \<Rightarrow> wxs list \<times> string list \<Rightarrow> wxs list \<times> string list" where
  "wxses_forEach refId [] st = st"
| "wxses_forEach refId (wxsId # rest) (usedWxses, refIds) =
     wxses_forEach refId rest
       (if str_includes (wxs_module wxsId) refId
        then (set_add wxsId usedWxses, set_delete refId refIds)
        else (usedWxses, refIds))"

fun refdata_forEach :: "wxs list \<Rightarrow> string list \<Rightarrow> wxs list \<times> string list \<Rightarrow> wxs list \<times> string list" where
  "refdata_forEach wxses [] st = st"
| "refdata_forEach wxses (refId # rest) st =
     refdata_forEach wxses rest (wxses_forEach refId wxses st)"

definition collect_usedWxses :: "wxs list \<Rightarrow> string list \<Rightarrow> wxs list \<times> string list" where
  "collect_usedWxses wxses refIds = refdata_forEach wxses refIds ([], refIds)"

text \<open>
  \<^verbatim>\<open>const firstId = Array.from(refIds)[0]\<close>, \<^verbatim>\<open>undefined\<close> for the empty set, and the
  loop that deletes the loop identifiers other than \<open>firstId\<close>.
\<close>

definition firstId_of :: "string list \<Rightarrow> string option" where
  "firstId_of refIds = (case refIds of [] \<Rightarrow> None | x # xs \<Rightarrow> Some x)"

fun loopIds_forEach :: "string list \<Rightarrow> string option \<Rightarrow> string list \<Rightarrow> string list \<Rightarrow> string list" where
  "loopIds_forEach loopIds firstId [] refIds = refIds"
| "loopIds_forEach loopIds firstId (refId # rest) refIds =
     loopIds_forEach loopIds firstId rest
       (if refId \<in> set loopIds \<and> Some refId \<noteq> firstId
        then set_delete refId refIds else refIds)"

definition prune_loopIds :: "string list \<Rightarrow> string list \<Rightarrow> string list" where
  "prune_loopIds loopIds refIds = loopIds_forEach loopIds (firstId_of refIds) refIds refIds"

text \<open>
  What \<^verbatim>\<open>path.traverse(createWxmlVisitor(loopIds, refIds, dirPath, [], imports))\<close> leaves
  behind: the two sets and the children of the node, which the visitor may have rewritten.
  The visitor comes from the module \<^verbatim>\<open>./wxml\<close> and is a parameter; it may throw.
\<close>

record visited =
  v_loopIds :: "string list"
  v_refIds :: "string list"
  v_children :: "jsx_child list"

record 'm class_declaration =
  cd_id :: expression
  cd_superClass :: expression
  cd_body :: "'m list"
  cd_decorators :: "expression list"

record 'm template_definition =
  def_name :: string
  def_ast :: "'m class_declaration"
  def_tmplName :: string
  def_usedWxses :: "wxs list"

fun set_children :: "jsx_element \<Rightarrow> jsx_child list \<Rightarrow> jsx_element" where
  "set_children (JSXElement oe ce ch sc p) ch' = JSXElement oe ce ch' sc p"

definition render_method :: "'m utils \<Rightarrow> jsx_element \<Rightarrow> string list \<Rightarrow> 'm" where
  "render_method u block refIds =
     (if length refIds = 0 then buildRender u block [] [] None
      else if length refIds = 1 then buildRender u block [] refIds (Some [])
      else buildRender u block [] refIds (Some []))"

definition classDeclaration :: "string \<Rightarrow> 'm \<Rightarrow> 'm class_declaration" where
  "classDeclaration className render =
     \<lparr> cd_id = Identifier className,
       cd_superClass = MemberExpression (Identifier ''React'') (Identifier ''Component''),
       cd_body = [render],
       cd_decorators = [CallExpression (Identifier ''withWeapp'') [ObjectExpression []]] \<rparr>"

text \<open>The definition branch after the traversal; \<open>refIds1\<close> is \<open>refIds\<close> after the first
  loop, \<open>refIds2\<close> after the second.\<close>

definition define_template ::
  "'m utils \<Rightarrow> string \<Rightarrow> string \<Rightarrow> wxs list \<Rightarrow> visited \<Rightarrow> 'm template_definition" where
  "define_template u className templateName wxses v =
     (let usedWxses = fst (collect_usedWxses wxses (v_refIds v));
          refIds1 = snd (collect_usedWxses wxses (v_refIds v));
          refIds2 = prune_loopIds (v_loopIds v) refIds1;
          block = set_children (buildBlockElement u) (v_children v);
          render = render_method u block refIds2
      in \<lparr> def_name = className, def_ast = classDeclaration className render,
           def_tmplName = templateName, def_usedWxses = usedWxses \<rparr>)"

text \<open>
  \<^verbatim>\<open>t.jSXElement(t.jSXOpeningElement(t.jSXIdentifier(n), attributes),
  t.jSXClosingElement(t.jSXIdentifier(n)), [], true)\<close>: no children, and the field
  \<open>selfClosing\<close> of the element, the fourth argument of \<^verbatim>\<open>t.jSXElement\<close>, is true.
  This field is what self-closing means below. The source gives the element a closing
  element and passes no flag of its own to \<^verbatim>\<open>t.jSXOpeningElement\<close>.
\<close>

definition selfClosing_element :: "string \<Rightarrow> jsx_attribute list \<Rightarrow> jsx_element" where
  "selfClosing_element n attrs =
     JSXElement (JSXOpeningElement (JSXIdentifier n) attrs None) (Some (JSXIdentifier n))
       [] True None"

text \<open>The array \<open>attributes\<close>: the data attribute when there is one.\<close>

definition data_attributes :: "jsx_attribute option \<Rightarrow> jsx_attribute list" where
  "data_attributes dataAttr =
     (case dataAttr of
        None \<Rightarrow> []
      | Some d \<Rightarrow> if isJSXAttribute d then [d] else [])"

text \<open>
  \<^verbatim>\<open>t.jSXAttribute(t.jSXIdentifier('is'), branch)\<close>: the string literal node becomes the
  value of the attribute. The source builds it only after both branches passed
  \<open>isStringLiteral\<close>.
\<close>

definition is_attribute :: "expression \<Rightarrow> jsx_attribute" where
  "is_attribute branch =
     JSXAttribute (JSXIdentifier ''is'')
       (case branch of StringLiteral s \<Rightarrow> Some (StringLiteralValue s) | other \<Rightarrow> None)"

definition template_choice :: "'m utils \<Rightarrow> jsx_attribute list \<Rightarrow> expression \<Rightarrow> expression \<Rightarrow> expression \<Rightarrow> jsx_element" where
  "template_choice u attrs test consequent alternate =
     set_children (buildBlockElement u)
       [JSXExpressionContainerChild
          (ConditionalExpression test
             (JSXElementExpression
                (selfClosing_element ''Template'' (attrs @ [is_attribute consequent])))
             (JSXElementExpression
                (selfClosing_element ''Template'' (attrs @ [is_attribute alternate]))))]"

text \<open>The branch for an \<open>is\<close> attribute whose value is an expression container.\<close>

fun is_expression ::
  "'m utils \<Rightarrow> node_path \<Rightarrow> jsx_attribute option \<Rightarrow> expression \<Rightarrow>
     ('m template_definition option \<times> tree_edit) outcome" where
  "is_expression u path dataAttr (StringLiteral v) =
     (case buildTemplateName (pascalName u) v True of
        None \<Rightarrow> None
      | Some className \<Rightarrow>
          Some (Inr (None, ReplacedWith (JSXElementExpression
            (selfClosing_element className (data_attributes dataAttr))))))"
| "is_expression u path dataAttr (ConditionalExpression test consequent alternate) =
     (if \<not> isStringLiteral consequent \<or> \<not> isStringLiteral alternate
      then Some (Inl (IReportError TemplateIsBranchesNotStrings
             TemplateIsAttributeTypeMismatchError ''WXML_FILE'' (code_of u (node path))
             (position_of (position (node path)))))
      else Some (Inr (None, ReplacedWith (JSXElementExpression
             (template_choice u (data_attributes dataAttr) test consequent alternate)))))"
| "is_expression u path dataAttr e = Some (Inr (None, Unchanged))"

definition parseTemplate ::
  "'m utils \<Rightarrow> (jsx_element \<Rightarrow> string \<Rightarrow> error + visited) \<Rightarrow> node_path \<Rightarrow> string \<Rightarrow>
     wxs list \<Rightarrow> ('m template_definition option \<times> tree_edit) outcome" where
  "parseTemplate u wxmlVisit path dirPath wxses =
     (if \<not> container path then Some (Inr (None, Unchanged))
      else
        (let isAttr = find_attribute ''is'' (node path);
             dataAttr = find_attribute ''data'' (node path);
             nameAttr = find_attribute ''name'' (node path)
         in
           (case nameAttr of
              Some nameA \<Rightarrow>
                (case attribute_value nameA of
                   Some (StringLiteralValue templateName) \<Rightarrow>
                     (case buildTemplateName (pascalName u) templateName True of
                        None \<Rightarrow> None
                      | Some className \<Rightarrow>
                          (case wxmlVisit (node path) dirPath of
                             Inl e \<Rightarrow> Some (Inl e)
                           | Inr v \<Rightarrow>
                               Some (Inr (Some (define_template u className templateName wxses v),
                                 Removed))))
                 | other \<Rightarrow> Some (Inl (Error TemplateNameNotString)))
            | None \<Rightarrow>
                (case isAttr of
                   Some isA \<Rightarrow>
                     (case attribute_value isA of
                        None \<Rightarrow>
                          Some (Inl (IReportError TemplateIsEmpty TemplateIsAttributeEmptyError
                            ''WXML_FILE'' (code_of u (node path))
                            (position_of (position (node path)))))
                      | Some (StringLiteralValue v) \<Rightarrow>
                          (case buildTemplateName (pascalName u) v True of
                             None \<Rightarrow> None
                           | Some className \<Rightarrow>
                               Some (Inr (None, ReplacedWith (JSXElementExpression
                                 (selfClosing_element className (data_attributes dataAttr))))))
                      | Some (JSXExpressionContainer e) \<Rightarrow> is_expression u path dataAttr e
                      | Some (JSXElementValue el) \<Rightarrow> Some (Inr (None, Unchanged)))
                 | None \<Rightarrow>
                     Some (Inl (IReportError TemplateMissingIsName TemplateMissingIsNameError
                       ''WXML_FILE'' (code_of u (node path))
                       (position_of (position (node path)))))))))"

section \<open>getWxmlSource and parseModule\<close>











section \<open>Sample collaborators\<close>

text \<open>
  Concrete parameters at which the functions are evaluated in the closed instances below:
  path functions in the POSIX style and a file system that holds one file.
\<close>

definition sample_sys :: sys where
  "sample_sys =
     \<lparr> rootPath = ''/proj'',
       path_join = (\<lambda>a b. a @ ''/'' @ (if take 2 b = ''./'' then drop 2 b else b)),
       path_relative =
         (\<lambda>a b. if take (length a + 1) b = a @ ''/'' then drop (length a + 1) b else b),
       path_extname =
         (\<lambda>p. let base = rev (takeWhile (\<lambda>c. c \<noteq> CHR ''/'') (rev p))
              in if CHR ''.'' \<in> set (drop 1 base)
                 then CHR ''.'' # rev (takeWhile (\<lambda>c. c \<noteq> CHR ''.'') (rev base))
                 else []),
       path_dirname = (\<lambda>p. rev (drop 1 (dropWhile (\<lambda>c. c \<noteq> CHR ''/'') (rev p)))),
       path_resolve = (\<lambda>a b. a @ ''/'' @ (if take 2 b = ''./'' then drop 2 b else b)),
       existsSync = (\<lambda>p. p = ''/proj/pages/list.wxml''),
       readFileSync = (\<lambda>p. if p = ''/proj/pages/list.wxml'' then Some ''<view/>'' else None) \<rparr>"

definition sample_utils :: "(jsx_element \<times> string list) utils" where
  "sample_utils =
     \<lparr> pascalName = (\<lambda>s. s),
       astToCode = (\<lambda>n. Some ''<template/>''),
       buildBlockElement =
         JSXElement (JSXOpeningElement (JSXIdentifier ''Block'') [] None)
           (Some (JSXIdentifier ''Block'')) [] False None,
       buildRender = (\<lambda>block stateKeys propsKeys templateType. (block, propsKeys)) \<rparr>"

text \<open>A visitor that finds two loop identifiers and three references.\<close>

definition sample_visit :: "jsx_element \<Rightarrow> string \<Rightarrow> error + visited" where
  "sample_visit n dirPath =
     Inr \<lparr> v_loopIds = [''item'', ''index''],
           v_refIds = [''item'', ''index'', ''list''],
           v_children = children n \<rparr>"


definition sample_element :: "jsx_attribute list \<Rightarrow> jsx_element" where
  "sample_element attrs =
     JSXElement (JSXOpeningElement (JSXIdentifier ''template'') attrs None)
       (Some (JSXIdentifier ''template'')) [JSXText ''x''] False (Some (3, 4))"

definition sample_data :: jsx_attribute where
  "sample_data =
     JSXAttribute (JSXIdentifier ''data'') (Some (JSXExpressionContainer (Identifier ''bar'')))"

text \<open>\<^verbatim>\<open><template name="item">x</template>\<close>\<close>

definition definition_path :: node_path where
  "definition_path =
     \<lparr> container = True,
       node = sample_element
         [JSXAttribute (JSXIdentifier ''name'') (Some (StringLiteralValue ''item''))] \<rparr>"



text \<open>\<^verbatim>\<open><template class="c" is="foo" data={bar}>x</template>\<close>\<close>

definition call_path :: node_path where
  "call_path =
     \<lparr> container = True,
       node = sample_element
         [JSXAttribute (JSXIdentifier ''class'') (Some (StringLiteralValue ''c'')),
          JSXAttribute (JSXIdentifier ''is'') (Some (StringLiteralValue ''foo'')),
          sample_data] \<rparr>"

text \<open>The same node on a path that has no container.\<close>

definition detached_call_path :: node_path where
  "detached_call_path = call_path \<lparr> container := False \<rparr>"

text \<open>\<^verbatim>\<open><template is="my-wx-item" data={bar}>x</template>\<close>\<close>

definition wx_call_path :: node_path where
  "wx_call_path =
     \<lparr> container = True,
       node = sample_element
         [JSXAttribute (JSXIdentifier ''is'') (Some (StringLiteralValue ''my-wx-item'')),
          sample_data] \<rparr>"

text \<open>\<^verbatim>\<open><template is={which} data={bar}>x</template>\<close>\<close>

definition computed_call_path :: node_path where
  "computed_call_path =
     \<lparr> container = True,
       node = sample_element
         [JSXAttribute (JSXIdentifier ''is'')
            (Some (JSXExpressionContainer (Identifier ''which''))),
          sample_data] \<rparr>"

text \<open>\<^verbatim>\<open><template name={which}>x</template>\<close>\<close>

definition computed_name_path :: node_path where
  "computed_name_path =
     \<lparr> container = True,
       node = sample_element
         [JSXAttribute (JSXIdentifier ''name'')
            (Some (JSXExpressionContainer (Identifier ''which'')))] \<rparr>"


definition format_wxs :: wxs where
  "format_wxs = \<lparr> wxs_module = ''format'', wxs_src = ''./format.wxs'' \<rparr>"

section \<open>Lemmas on buildTemplateName\<close>

lemma test_wx_Cons:
  "test_wx (a # s) = ((case s of [] \<Rightarrow> False | b # r \<Rightarrow> is_w a \<and> is_x b) \<or> test_wx s)"
  by (cases s) simp_all

lemma test_wx_taro: "test_wx (''taro-'' @ s) = test_wx s"
  by (cases s) (simp_all add: is_w_def is_x_def)

lemma test_wx_ro: "test_wx (''ro-'' @ s) = test_wx s"
  by (cases s) (simp_all add: is_w_def is_x_def)

lemma drop_2_taro: "drop 2 (''taro-'' @ s) = ''ro-'' @ s"
  by simp

lemma buildTemplateName_returns_only_if:
  assumes "buildTemplateName pn name pascal = Some r"
  shows "\<not> (test_wx name \<and> test_wx (drop 2 name))"
proof (rule buildTemplateName.raw_induct
    [where P = "\<lambda>pn name pascal r. \<not> (test_wx name \<and> test_wx (drop 2 name))", OF _ assms])
  fix f :: "(string \<Rightarrow> string) \<Rightarrow> string \<Rightarrow> bool \<Rightarrow> string option"
    and pn' name' pascal' r'
  assume IH: "\<And>pn name pascal r. f pn name pascal = Some r \<Longrightarrow>
      \<not> (test_wx name \<and> test_wx (drop 2 name))"
  assume step: "(if test_wx name' then f pn' (''taro-'' @ drop 2 name') True
      else Some (join_empty (push_words (tmpl_words pn' name' pascal') []))) = Some r'"
  show "\<not> (test_wx name' \<and> test_wx (drop 2 name'))"
  proof (cases "test_wx name'")
    case False
    then show ?thesis by simp
  next
    case True
    with step have "f pn' (''taro-'' @ drop 2 name') True = Some r'" by simp
    from IH [OF this] have "\<not> test_wx (drop 2 name')"
      unfolding drop_2_taro test_wx_taro test_wx_ro by simp
    then show ?thesis by simp
  qed
qed

lemma buildTemplateName_plain:
  "\<not> test_wx name \<Longrightarrow> buildTemplateName pn name pascal =
     Some (join_empty (push_words (tmpl_words pn name pascal) []))"
  by (subst buildTemplateName.simps) simp

lemma buildTemplateName_wx:
  "test_wx name \<Longrightarrow> buildTemplateName pn name pascal =
     buildTemplateName pn (''taro-'' @ drop 2 name) True"
  by (subst buildTemplateName.simps) simp

lemma buildTemplateName_wx_once:
  "test_wx name \<Longrightarrow> \<not> test_wx (drop 2 name) \<Longrightarrow> buildTemplateName pn name pascal =
     Some (join_empty (push_words (tmpl_words pn (''taro-'' @ drop 2 name) True) []))"
  by (simp only: buildTemplateName_wx)
    (simp only: buildTemplateName_plain test_wx_taro not_False_eq_True)

text \<open>The function returns exactly on the names that need at most one rewriting step.\<close>

lemma buildTemplateName_returns_iff:
  "(\<exists>r. buildTemplateName pn name pascal = Some r) =
     (\<not> (test_wx name \<and> test_wx (drop 2 name)))"
proof
  assume "\<exists>r. buildTemplateName pn name pascal = Some r"
  then show "\<not> (test_wx name \<and> test_wx (drop 2 name))"
    using buildTemplateName_returns_only_if by blast
next
  assume a: "\<not> (test_wx name \<and> test_wx (drop 2 name))"
  show "\<exists>r. buildTemplateName pn name pascal = Some r"
  proof (cases "test_wx name")
    case False
    then show ?thesis by (simp add: buildTemplateName_plain)
  next
    case True
    with a have "\<not> test_wx (drop 2 name)" by simp
    with True show ?thesis by (simp add: buildTemplateName_wx_once)
  qed
qed

lemma push_words_map:
  "push_words ws str =
     str @ map (\<lambda>word. if isNumeric word then NumberWords_at word else Some [word]) ws"
  by (induction ws arbitrary: str) simp_all

lemma isNumeric_digit: "isNumeric c = is_digit c"
  by (auto simp: isNumeric_def parseFloat_char_def isFinite_char_def)

lemma digit_value_less: "is_digit c \<Longrightarrow> digit_value c < 10"
  unfolding is_digit_def digit_value_def by arith

lemma NumberWords_at_digit:
  "is_digit c \<Longrightarrow> NumberWords_at c = Some (NumberWords ! digit_value c)"
  unfolding NumberWords_at_def is_digit_def digit_value_def NumberWords_def by auto

lemma NumberWords_single:
  "i < 10 \<Longrightarrow> \<exists>l. NumberWords ! i = [l] \<and> \<not> is_digit l"
  unfolding NumberWords_def is_digit_def
  by (auto simp: less_Suc_eq numeral_eq_Suc nth_Cons')

lemma pushed_word:
  "(case (if isNumeric c then NumberWords_at c else Some [c]) of None \<Rightarrow> [] | Some s \<Rightarrow> s) =
     [if isNumeric c then hd (NumberWords ! digit_value c) else c]"
proof (cases "is_digit c")
  case True
  from NumberWords_single [OF digit_value_less [OF True]]
  obtain l where "NumberWords ! digit_value c = [l]" by blast
  with True show ?thesis by (simp add: isNumeric_digit NumberWords_at_digit)
next
  case False
  then show ?thesis by (simp add: isNumeric_digit)
qed

lemma join_push_words:
  "join_empty (push_words ws []) =
     map (\<lambda>c. if isNumeric c then hd (NumberWords ! digit_value c) else c) ws"
  unfolding push_words_map join_empty_def
  by (induction ws) (simp_all only: list.map concat.simps append_Nil pushed_word append_Cons)

lemma replaced_not_numeric:
  "\<not> isNumeric (if isNumeric c then hd (NumberWords ! digit_value c) else c)"
proof (cases "is_digit c")
  case True
  from NumberWords_single [OF digit_value_less [OF True]]
  obtain l where "NumberWords ! digit_value c = [l]" "\<not> is_digit l" by blast
  with True show ?thesis by (simp add: isNumeric_digit)
next
  case False
  then show ?thesis by (simp add: isNumeric_digit)
qed

lemma replaced_letter:
  "isNumeric c \<Longrightarrow> [hd (NumberWords ! digit_value c)] = NumberWords ! digit_value c"
proof -
  assume "isNumeric c"
  then have d: "is_digit c" by (simp add: isNumeric_digit)
  from NumberWords_single [OF digit_value_less [OF d]]
  obtain l where "NumberWords ! digit_value c = [l]" by blast
  then show ?thesis by simp
qed

section \<open>Claims on buildTemplateName\<close>

text \<open>
  C1. The claim is that buildTemplateName returns a string for every input. The pattern
  \<^verbatim>\<open>/wx/i\<close> is not anchored while \<^verbatim>\<open>slice(2)\<close> removes the first two characters:
  on the template name \<^verbatim>\<open>my-wx-item\<close> every recursive argument still contains
  \<^verbatim>\<open>wx\<close>, and the call never returns. By \<open>buildTemplateName_returns_iff\<close> the
  function returns exactly on the names that do not match, or that no longer match once
  their first two characters are removed.
\<close>

theorem buildTemplateName_my_wx_item_never_returns:
  "buildTemplateName pn ''my-wx-item'' pascal = None"
proof (cases "buildTemplateName pn ''my-wx-item'' pascal")
  case None
  then show ?thesis .
next
  case (Some r)
  from buildTemplateName_returns_only_if [OF Some] show ?thesis
    by (simp add: is_w_def is_x_def)
qed

text \<open>
  C2. The claim is that for every input string the string returned contains no numeric
  character. On every name that does not match \<^verbatim>\<open>/wx/i\<close>, or that no longer matches
  once its first two characters are removed, buildTemplateName returns a string \<open>r\<close> and
  no character of \<open>r\<close> is numeric: with \<open>words\<close> the case-transformed intermediate
  string of the call that returns, \<open>r\<close> has the length of \<open>words\<close>, at every position a
  numeric character is replaced by the entry of \<open>NumberWords\<close> at its digit value, and
  any other character is kept. On every other name, such as \<^verbatim>\<open>my-wx-item1\<close>, no string
  is returned and the digit is never replaced: the recursion on the unanchored pattern
  never ends there.
\<close>

theorem buildTemplateName_no_numeric_char:
  "(\<not> (test_wx name \<and> test_wx (drop 2 name)) \<longrightarrow>
      (\<exists>r. buildTemplateName pn name pascal = Some r \<and>
         (\<forall>c \<in> set r. \<not> isNumeric c) \<and>
         (let words = (if test_wx name
                       then tmpl_words pn (''taro-'' @ drop 2 name) True
                       else tmpl_words pn name pascal)
          in length r = length words \<and>
             (\<forall>i < length words.
                if isNumeric (words ! i)
                then [r ! i] = NumberWords ! digit_value (words ! i)
                else r ! i = words ! i)))) \<and>
   (test_wx name \<and> test_wx (drop 2 name) \<longrightarrow>
      buildTemplateName pn name pascal = None)"
proof (intro conjI impI)
  assume ok: "\<not> (test_wx name \<and> test_wx (drop 2 name))"
  define words where "words = (if test_wx name
      then tmpl_words pn (''taro-'' @ drop 2 name) True
      else tmpl_words pn name pascal)"
  define r where
    "r = map (\<lambda>c. if isNumeric c then hd (NumberWords ! digit_value c) else c) words"
  have ret: "buildTemplateName pn name pascal = Some r"
  proof (cases "test_wx name")
    case False
    then show ?thesis
      by (simp add: buildTemplateName_plain join_push_words words_def r_def)
  next
    case True
    with ok have "\<not> test_wx (drop 2 name)" by simp
    with True show ?thesis
      by (simp add: buildTemplateName_wx_once join_push_words words_def r_def)
  qed
  have 1: "\<forall>c \<in> set r. \<not> isNumeric c"
  proof
    fix c
    assume "c \<in> set r"
    then obtain x where "c = (if isNumeric x then hd (NumberWords ! digit_value x) else x)"
      unfolding r_def set_map by blast
    then show "\<not> isNumeric c"
      by (simp only: replaced_not_numeric not_False_eq_True)
  qed
  have 2: "length r = length words"
    unfolding r_def by simp
  have 3: "\<forall>i < length words.
      if isNumeric (words ! i)
      then [r ! i] = NumberWords ! digit_value (words ! i)
      else r ! i = words ! i"
    unfolding r_def using replaced_letter by simp
  from ret 1 2 3 show "\<exists>r. buildTemplateName pn name pascal = Some r \<and>
         (\<forall>c \<in> set r. \<not> isNumeric c) \<and>
         (let words = (if test_wx name
                       then tmpl_words pn (''taro-'' @ drop 2 name) True
                       else tmpl_words pn name pascal)
          in length r = length words \<and>
             (\<forall>i < length words.
                if isNumeric (words ! i)
                then [r ! i] = NumberWords ! digit_value (words ! i)
                else r ! i = words ! i))"
    unfolding words_def [symmetric] Let_def by blast
next
  assume bad: "test_wx name \<and> test_wx (drop 2 name)"
  show "buildTemplateName pn name pascal = None"
  proof (cases "buildTemplateName pn name pascal")
    case None
    then show ?thesis .
  next
    case (Some r)
    from buildTemplateName_returns_only_if [OF Some] bad show ?thesis
      by blast
  qed
qed

theorem buildTemplateName_no_numeric_char_witness:
  "buildTemplateName (\<lambda>s. s) ''a1'' False = Some ''ab-tmpl'' \<and>
   list_all (\<lambda>c. \<not> isNumeric c) ''ab-tmpl'' \<and>
   buildTemplateName (\<lambda>s. s) ''my-wx-item1'' False = None"
proof -
  have e: "buildTemplateName (\<lambda>s. s) ''a1'' False = Some ''ab-tmpl''"
    by (subst buildTemplateName.simps)
      (simp add: tmpl_words_def join_empty_def isNumeric_def parseFloat_char_def
        isFinite_char_def is_digit_def is_w_def is_x_def NumberWords_at_def NumberWords_def
        digit_value_def)
  have ok: "\<not> (test_wx ''a1'' \<and> test_wx (drop 2 ''a1''))"
    by simp
  have bad: "test_wx ''my-wx-item1'' \<and> test_wx (drop 2 ''my-wx-item1'')"
    by (simp add: is_w_def is_x_def)
  from buildTemplateName_no_numeric_char [of "''a1''" "\<lambda>s. s" False] ok
  obtain r where "buildTemplateName (\<lambda>s. s) ''a1'' False = Some r"
    and "\<forall>c \<in> set r. \<not> isNumeric c"
    by blast
  with e have "\<forall>c \<in> set ''ab-tmpl''. \<not> isNumeric c"
    by simp
  then have l: "list_all (\<lambda>c. \<not> isNumeric c) ''ab-tmpl''"
    unfolding list_all_iff .
  from buildTemplateName_no_numeric_char [of "''my-wx-item1''" "\<lambda>s. s" False] bad
  have n: "buildTemplateName (\<lambda>s. s) ''my-wx-item1'' False = None"
    by blast
  from e l n show ?thesis by blast
qed

section \<open>Claims on getSrcRelPath\<close>

text \<open>
  C8. getSrcRelPath fails exactly when \<open>srcPath\<close> starts with a slash and neither the
  target under the configured project root nor that target with \<^verbatim>\<open>.wxml\<close> appended
  exists. A \<open>srcPath\<close> that does not start with a slash is returned unchanged whatever the
  file system holds.
\<close>

theorem getSrcRelPath_fails_iff:
  "((\<exists>e. getSrcRelPath sy dirPath srcPath = Inl e) =
      (startsWith srcPath ''/'' \<and>
       \<not> existsSync sy (path_join sy (rootPath sy) (drop 1 srcPath)) \<and>
       \<not> existsSync sy (path_join sy (rootPath sy) (drop 1 srcPath) @ ''.wxml''))) \<and>
   (\<not> startsWith srcPath ''/'' \<longrightarrow>
      (\<forall>sy' dirPath'. getSrcRelPath sy' dirPath' srcPath = Inr srcPath))"
  by (simp add: getSrcRelPath_def Let_def)

theorem getSrcRelPath_fails_iff_witness:
  "\<not> startsWith ''./item.wxml'' ''/'' \<and>
   getSrcRelPath sample_sys ''/proj/pages'' ''./item.wxml'' = Inr ''./item.wxml'' \<and>
   getSrcRelPath sample_sys ''/proj/pages'' ''/pages/none'' =
     Inl (Error (SrcPathNotFound ''/pages/none'')) \<and>
   getSrcRelPath sample_sys ''/proj/pages'' ''/pages/list'' = Inr ''./list''"
proof -
  have n: "\<not> startsWith ''./item.wxml'' ''/''"
    by (simp add: startsWith_def)
  from getSrcRelPath_fails_iff [of sample_sys "''/proj/pages''" "''./item.wxml''"] n
  have 1: "getSrcRelPath sample_sys ''/proj/pages'' ''./item.wxml'' = Inr ''./item.wxml''"
    by blast
  have 2: "getSrcRelPath sample_sys ''/proj/pages'' ''/pages/none'' =
      Inl (Error (SrcPathNotFound ''/pages/none''))"
    by (simp add: getSrcRelPath_def startsWith_def sample_sys_def)
  have 3: "getSrcRelPath sample_sys ''/proj/pages'' ''/pages/list'' = Inr ''./list''"
    by (simp add: getSrcRelPath_def startsWith_def sample_sys_def backslash_to_slash_def)
  from n 1 2 3 show ?thesis by blast
qed

section \<open>Lemmas on the attributes and the two loops\<close>

lemma named_isJSXAttribute: "isJSXAttributeNamed n a \<Longrightarrow> isJSXAttribute a"
  by (cases a) simp_all

lemma find_attribute_named:
  "find_attribute n el = Some a \<Longrightarrow> isJSXAttributeNamed n a"
  unfolding find_attribute_def by (auto simp: find_Some_iff)

lemma find_attribute_isJSXAttribute:
  "find_attribute n el = Some a \<Longrightarrow> isJSXAttribute a"
  by (rule named_isJSXAttribute) (rule find_attribute_named)

lemma data_attributes_find:
  "data_attributes (find_attribute n el) =
     (case find_attribute n el of None \<Rightarrow> [] | Some d \<Rightarrow> [d])"
  unfolding data_attributes_def
  by (auto split: option.splits dest: find_attribute_isJSXAttribute)

lemma wxses_forEach_snd:
  "snd (wxses_forEach refId wxses (used, refIds)) =
     (if \<exists>w \<in> set wxses. str_includes (wxs_module w) refId
      then removeAll refId refIds else refIds)"
  by (induction wxses arbitrary: used refIds) (auto simp: set_delete_def)

lemma wxses_forEach_fst:
  "set (fst (wxses_forEach refId wxses (used, refIds))) =
     set used \<union> {w \<in> set wxses. str_includes (wxs_module w) refId}"
  by (induction wxses arbitrary: used refIds) (auto simp: set_add_def)

lemma refdata_forEach_snd:
  "snd (refdata_forEach wxses rs (used, refIds)) =
     filter (\<lambda>r. \<not> (r \<in> set rs \<and> (\<exists>w \<in> set wxses. str_includes (wxs_module w) r))) refIds"
proof (induction rs arbitrary: used refIds)
  case Nil
  then show ?case by simp
next
  case (Cons r rs)
  obtain used' refIds' where st: "wxses_forEach r wxses (used, refIds) = (used', refIds')"
    by (cases "wxses_forEach r wxses (used, refIds)")
  from wxses_forEach_snd [of r wxses used refIds] st
  have r': "refIds' = (if \<exists>w \<in> set wxses. str_includes (wxs_module w) r
      then removeAll r refIds else refIds)" by simp
  show ?case
    unfolding refdata_forEach.simps st Cons.IH r'
    by (auto simp: removeAll_filter_not_eq filter_filter intro!: filter_cong)
qed

lemma refdata_forEach_fst:
  "set (fst (refdata_forEach wxses rs (used, refIds))) =
     set used \<union> {w \<in> set wxses. \<exists>r \<in> set rs. str_includes (wxs_module w) r}"
proof (induction rs arbitrary: used refIds)
  case Nil
  then show ?case by simp
next
  case (Cons r rs)
  obtain used' refIds' where st: "wxses_forEach r wxses (used, refIds) = (used', refIds')"
    by (cases "wxses_forEach r wxses (used, refIds)")
  from wxses_forEach_fst [of r wxses used refIds] st
  have u': "set used' = set used \<union> {w \<in> set wxses. str_includes (wxs_module w) r}" by simp
  show ?case
    unfolding refdata_forEach.simps st Cons.IH u' by auto
qed

text \<open>
  What the first loop computes: a reference is deleted when it occurs as a substring in the
  name of some module, and the modules used are those whose name has a reference as a
  substring.
\<close>

lemma collect_usedWxses_refIds:
  "snd (collect_usedWxses wxses refIds) =
     filter (\<lambda>r. \<not> (\<exists>w \<in> set wxses. str_includes (wxs_module w) r)) refIds"
  unfolding collect_usedWxses_def refdata_forEach_snd
  by (rule filter_cong) auto

lemma collect_usedWxses_used:
  "set (fst (collect_usedWxses wxses refIds)) =
     {w \<in> set wxses. \<exists>r \<in> set refIds. str_includes (wxs_module w) r}"
  unfolding collect_usedWxses_def refdata_forEach_fst by simp

lemma loopIds_forEach_filter:
  "loopIds_forEach loopIds firstId rs refIds =
     filter (\<lambda>r. \<not> (r \<in> set rs \<and> r \<in> set loopIds \<and> Some r \<noteq> firstId)) refIds"
proof (induction rs arbitrary: refIds)
  case Nil
  then show ?case by simp
next
  case (Cons r rs)
  show ?case
    unfolding loopIds_forEach.simps Cons.IH
    by (auto simp: set_delete_def removeAll_filter_not_eq filter_filter intro!: filter_cong)
qed

lemma prune_loopIds_filter:
  "prune_loopIds loopIds refIds =
     filter (\<lambda>r. r \<notin> set loopIds \<or> Some r = firstId_of refIds) refIds"
  unfolding prune_loopIds_def loopIds_forEach_filter
  by (rule filter_cong) auto

lemma prune_loopIds_subset_first:
  "set (prune_loopIds loopIds refIds) \<inter> set loopIds \<subseteq> set (take 1 refIds)"
  unfolding prune_loopIds_filter firstId_of_def
  by (cases refIds) auto

lemma prune_loopIds_card:
  "card (set (prune_loopIds loopIds refIds) \<inter> set loopIds) \<le> 1"
proof -
  have "card (set (prune_loopIds loopIds refIds) \<inter> set loopIds) \<le> card (set (take 1 refIds))"
    by (rule card_mono [OF _ prune_loopIds_subset_first]) simp
  also have "\<dots> \<le> length (take 1 refIds)"
    by (rule card_length)
  also have "\<dots> \<le> 1" by simp
  finally show ?thesis .
qed

lemma prune_loopIds_first:
  "refIds \<noteq> [] \<Longrightarrow> hd refIds \<in> set (prune_loopIds loopIds refIds)"
  unfolding prune_loopIds_filter firstId_of_def
  by (cases refIds) auto

lemma prune_loopIds_all_loop:
  "refIds \<noteq> [] \<Longrightarrow> set refIds \<subseteq> set loopIds \<Longrightarrow>
     set (prune_loopIds loopIds refIds) = {hd refIds}"
  unfolding prune_loopIds_filter firstId_of_def
  by (cases refIds) auto

lemma parseTemplate_definition:
  assumes "container path"
    and "find_attribute ''name'' (node path) = Some nameA"
    and "attribute_value nameA = Some (StringLiteralValue templateName)"
    and "buildTemplateName (pascalName u) templateName True = Some className"
    and "wxmlVisit (node path) dirPath = Inr v"
  shows "parseTemplate u wxmlVisit path dirPath wxses =
     Some (Inr (Some (define_template u className templateName wxses v), Removed))"
  using assms by (simp add: parseTemplate_def Let_def)

lemma buildTemplateName_item:
  "buildTemplateName (pascalName sample_utils) ''item'' True = Some ''item-tmpl''"
  by (subst buildTemplateName.simps)
    (simp add: sample_utils_def is_w_def is_x_def tmpl_words_def join_empty_def
      isNumeric_def parseFloat_char_def is_digit_def)

lemma buildTemplateName_foo:
  "buildTemplateName (pascalName sample_utils) ''foo'' True = Some ''foo-tmpl''"
  by (subst buildTemplateName.simps)
    (simp add: sample_utils_def is_w_def is_x_def tmpl_words_def join_empty_def
      isNumeric_def parseFloat_char_def is_digit_def)

section \<open>Claims on the definition branch of parseTemplate\<close>

text \<open>
  C3. In the definition branch (the node is in the tree, its \<open>name\<close> is a string literal,
  buildTemplateName and the traversal return), let \<open>refIds1\<close> be the references left by the
  WXS loop and \<open>refIds2\<close> the references left by the pruning loop, which are the ones
  handed to \<open>buildRender\<close>. Then \<open>refIds2\<close> and \<open>loopIds\<close> share at most one element; a
  shared element is the first element of \<open>refIds1\<close>; every other loop identifier is removed;
  no other reference is removed; and when \<open>refIds1\<close> is not empty and all of it is
  loop-local, exactly its first element is retained.
\<close>

theorem parseTemplate_definition_loop_references:
  assumes "container path"
    and "find_attribute ''name'' (node path) = Some nameA"
    and "attribute_value nameA = Some (StringLiteralValue templateName)"
    and "buildTemplateName (pascalName u) templateName True = Some className"
    and "wxmlVisit (node path) dirPath = Inr v"
  shows "let loopIds = v_loopIds v;
             refIds1 = snd (collect_usedWxses wxses (v_refIds v));
             refIds2 = prune_loopIds loopIds refIds1
         in parseTemplate u wxmlVisit path dirPath wxses =
              Some (Inr (Some \<lparr> def_name = className,
                  def_ast = classDeclaration className
                    (render_method u (set_children (buildBlockElement u) (v_children v)) refIds2),
                  def_tmplName = templateName,
                  def_usedWxses = fst (collect_usedWxses wxses (v_refIds v)) \<rparr>, Removed)) \<and>
            card (set refIds2 \<inter> set loopIds) \<le> 1 \<and>
            set refIds2 \<inter> set loopIds \<subseteq> set (take 1 refIds1) \<and>
            (\<forall>r \<in> set refIds1. r \<in> set loopIds \<and> Some r \<noteq> firstId_of refIds1 \<longrightarrow> r \<notin> set refIds2) \<and>
            (\<forall>r \<in> set refIds1. r \<notin> set loopIds \<longrightarrow> r \<in> set refIds2) \<and>
            (refIds1 \<noteq> [] \<and> set refIds1 \<subseteq> set loopIds \<longrightarrow>
               refIds2 \<noteq> [] \<and> set refIds2 = {hd refIds1})"
proof -
  define loopIds where "loopIds = v_loopIds v"
  define refIds1 where "refIds1 = snd (collect_usedWxses wxses (v_refIds v))"
  define refIds2 where "refIds2 = prune_loopIds loopIds refIds1"
  have 1: "parseTemplate u wxmlVisit path dirPath wxses =
      Some (Inr (Some \<lparr> def_name = className,
          def_ast = classDeclaration className
            (render_method u (set_children (buildBlockElement u) (v_children v)) refIds2),
          def_tmplName = templateName,
          def_usedWxses = fst (collect_usedWxses wxses (v_refIds v)) \<rparr>, Removed))"
    unfolding parseTemplate_definition
      [where wxmlVisit = wxmlVisit and dirPath = dirPath, OF assms]
    by (simp add: define_template_def Let_def refIds2_def refIds1_def loopIds_def)
  have 2: "card (set refIds2 \<inter> set loopIds) \<le> 1"
    unfolding refIds2_def by (rule prune_loopIds_card)
  have 3: "set refIds2 \<inter> set loopIds \<subseteq> set (take 1 refIds1)"
    unfolding refIds2_def by (rule prune_loopIds_subset_first)
  have 4: "\<forall>r \<in> set refIds1. r \<in> set loopIds \<and> Some r \<noteq> firstId_of refIds1 \<longrightarrow> r \<notin> set refIds2"
    unfolding refIds2_def prune_loopIds_filter by auto
  have 5: "\<forall>r \<in> set refIds1. r \<notin> set loopIds \<longrightarrow> r \<in> set refIds2"
    unfolding refIds2_def prune_loopIds_filter by auto
  have 6: "refIds1 \<noteq> [] \<and> set refIds1 \<subseteq> set loopIds \<longrightarrow>
      refIds2 \<noteq> [] \<and> set refIds2 = {hd refIds1}"
  proof
    assume a: "refIds1 \<noteq> [] \<and> set refIds1 \<subseteq> set loopIds"
    from a have ne: "refIds1 \<noteq> []" ..
    from a have sub: "set refIds1 \<subseteq> set loopIds" ..
    have s: "set refIds2 = {hd refIds1}"
      unfolding refIds2_def by (rule prune_loopIds_all_loop [OF ne sub])
    have "refIds2 \<noteq> []"
    proof
      assume "refIds2 = []"
      with s show False by simp
    qed
    from this s show "refIds2 \<noteq> [] \<and> set refIds2 = {hd refIds1}" ..
  qed
  show ?thesis
    unfolding Let_def loopIds_def [symmetric] refIds1_def [symmetric] refIds2_def [symmetric]
    by (intro conjI) (fact 1 2 3 4 5 6)+
qed

lemma sample_visit_refIds:
  "prune_loopIds [''item'', ''index'']
     (snd (collect_usedWxses [] [''item'', ''index'', ''list''])) = [''item'', ''list'']"
  by (simp add: collect_usedWxses_def prune_loopIds_def firstId_of_def set_delete_def)

theorem parseTemplate_definition_loop_references_witness:
  "parseTemplate sample_utils sample_visit definition_path ''/proj/pages'' [] =
     Some (Inr (Some \<lparr> def_name = ''item-tmpl'',
         def_ast = classDeclaration ''item-tmpl''
           (set_children (buildBlockElement sample_utils) [JSXText ''x''], [''item'', ''list'']),
         def_tmplName = ''item'',
         def_usedWxses = [] \<rparr>, Removed)) \<and>
   card (set [''item'', ''list''] \<inter> set [''item'', ''index'']) \<le> 1"
proof -
  have c: "container definition_path"
    by (simp add: definition_path_def)
  have n: "find_attribute ''name'' (node definition_path) =
      Some (JSXAttribute (JSXIdentifier ''name'') (Some (StringLiteralValue ''item'')))"
    by (simp add: definition_path_def sample_element_def find_attribute_def)
  have a: "attribute_value (JSXAttribute (JSXIdentifier ''name'')
      (Some (StringLiteralValue ''item''))) = Some (StringLiteralValue ''item'')"
    by simp
  have v: "sample_visit (node definition_path) ''/proj/pages'' =
      Inr \<lparr> v_loopIds = [''item'', ''index''], v_refIds = [''item'', ''index'', ''list''],
            v_children = [JSXText ''x''] \<rparr>"
    by (simp add: sample_visit_def definition_path_def sample_element_def)
  have r: "render_method sample_utils b [''item'', ''list''] = (b, [''item'', ''list''])" for b
    by (simp add: render_method_def sample_utils_def)
  have u: "fst (collect_usedWxses [] [''item'', ''index'', ''list'']) = []"
    by (simp add: collect_usedWxses_def)
  from parseTemplate_definition_loop_references
    [where wxmlVisit = sample_visit and dirPath = "''/proj/pages''" and wxses = "[]",
      OF c n a buildTemplateName_item v]
  show ?thesis
    by (simp add: Let_def sample_visit_refIds r u)
qed

text \<open>
  C4. The claim is that a reference leaves \<open>refIds\<close> exactly when a module is named by it.
  The loop tests \<^verbatim>\<open>wxsId.module.includes(refId)\<close>, which holds for every substring of
  the name: with the module \<^verbatim>\<open>format\<close> registered, the reference \<^verbatim>\<open>a\<close> is deleted
  and the module is marked as used, although no module is named \<^verbatim>\<open>a\<close>.
\<close>

theorem collect_usedWxses_deletes_substring:
  "collect_usedWxses [format_wxs] [''a'', ''list''] = ([format_wxs], [''list'']) \<and>
   wxs_module format_wxs \<noteq> ''a''"
  by (simp add: collect_usedWxses_def format_wxs_def startsWith_def set_add_def set_delete_def)

section \<open>Claims on the invocation branches of parseTemplate\<close>

text \<open>
  C5, as the claim states it, fails. The first node has no \<open>name\<close> attribute and the
  string literal \<^verbatim>\<open>foo\<close> as its \<open>is\<close> attribute, on a path without a container: the
  guard at the top of parseTemplate returns before anything is replaced. The second node is
  in the tree and has the string literal \<^verbatim>\<open>my-wx-item\<close> as its \<open>is\<close> attribute:
  buildTemplateName never returns on it (the recursion on the unanchored pattern never
  ends), and nothing is replaced.
\<close>

theorem parseTemplate_is_literal_counterexample:
  "find_attribute ''name'' (node detached_call_path) = None \<and>
   find_attribute ''is'' (node detached_call_path) =
     Some (JSXAttribute (JSXIdentifier ''is'') (Some (StringLiteralValue ''foo''))) \<and>
   parseTemplate sample_utils sample_visit detached_call_path ''/proj/pages'' [] =
     Some (Inr (None, Unchanged)) \<and>
   find_attribute ''name'' (node wx_call_path) = None \<and>
   find_attribute ''is'' (node wx_call_path) =
     Some (JSXAttribute (JSXIdentifier ''is'') (Some (StringLiteralValue ''my-wx-item''))) \<and>
   parseTemplate sample_utils sample_visit wx_call_path ''/proj/pages'' [] = None"
proof -
  have 1: "find_attribute ''name'' (node detached_call_path) = None"
    by (simp add: detached_call_path_def call_path_def sample_element_def find_attribute_def
        sample_data_def)
  have 2: "find_attribute ''is'' (node detached_call_path) =
      Some (JSXAttribute (JSXIdentifier ''is'') (Some (StringLiteralValue ''foo'')))"
    by (simp add: detached_call_path_def call_path_def sample_element_def find_attribute_def)
  have 3: "parseTemplate sample_utils sample_visit detached_call_path ''/proj/pages'' [] =
      Some (Inr (None, Unchanged))"
    by (simp add: parseTemplate_def detached_call_path_def)
  have 4: "find_attribute ''name'' (node wx_call_path) = None"
    by (simp add: wx_call_path_def sample_element_def find_attribute_def sample_data_def)
  have 5: "find_attribute ''is'' (node wx_call_path) =
      Some (JSXAttribute (JSXIdentifier ''is'') (Some (StringLiteralValue ''my-wx-item'')))"
    by (simp add: wx_call_path_def sample_element_def find_attribute_def)
  have b: "buildTemplateName (pascalName sample_utils) ''my-wx-item'' True = None"
  proof (cases "buildTemplateName (pascalName sample_utils) ''my-wx-item'' True")
    case None
    then show ?thesis .
  next
    case (Some r)
    from buildTemplateName_returns_only_if [OF Some] show ?thesis
      by (simp add: is_w_def is_x_def)
  qed
  have c: "container wx_call_path"
    by (simp add: wx_call_path_def)
  have 6: "parseTemplate sample_utils sample_visit wx_call_path ''/proj/pages'' [] = None"
    using c 4 5 b by (simp add: parseTemplate_def Let_def)
  from 1 2 3 4 5 6 show ?thesis by (intro conjI)
qed

text \<open>
  C5, amended. For a template node in the tree (the path has a container) with no
  \<open>name\<close> attribute and an \<open>is\<close> attribute whose value is a string literal, directly or
  inside an expression container, such that the literal does not match \<^verbatim>\<open>/wx/i\<close> or no
  longer matches once its first two characters are removed: buildTemplateName returns a
  name \<open>className\<close> for the literal, and parseTemplate returns no value and replaces the
  node by an element named \<open>className\<close> whose field \<open>selfClosing\<close> is true, which has
  no children, and whose only attribute is the \<open>data\<close> attribute of the node if it has
  one. Nothing is said here about the other literals.
\<close>

theorem parseTemplate_is_literal:
  assumes "container path"
    and "find_attribute ''name'' (node path) = None"
    and "find_attribute ''is'' (node path) = Some isA"
    and "attribute_value isA = Some (StringLiteralValue lit) \<or>
         attribute_value isA = Some (JSXExpressionContainer (StringLiteral lit))"
    and "\<not> (test_wx lit \<and> test_wx (drop 2 lit))"
  shows "\<exists>className.
     buildTemplateName (pascalName u) lit True = Some className \<and>
     parseTemplate u wxmlVisit path dirPath wxses =
       Some (Inr (None, ReplacedWith (JSXElementExpression
         (JSXElement
            (JSXOpeningElement (JSXIdentifier className)
               (case find_attribute ''data'' (node path) of None \<Rightarrow> [] | Some d \<Rightarrow> [d]) None)
            (Some (JSXIdentifier className)) [] True None))))"
proof -
  from assms(5) buildTemplateName_returns_iff [of "pascalName u" lit True]
  obtain className where b: "buildTemplateName (pascalName u) lit True = Some className"
    by blast
  have "parseTemplate u wxmlVisit path dirPath wxses =
       Some (Inr (None, ReplacedWith (JSXElementExpression
         (JSXElement
            (JSXOpeningElement (JSXIdentifier className)
               (case find_attribute ''data'' (node path) of None \<Rightarrow> [] | Some d \<Rightarrow> [d]) None)
            (Some (JSXIdentifier className)) [] True None))))"
    using assms(4)
  proof
    assume "attribute_value isA = Some (StringLiteralValue lit)"
    with assms(1,2,3) b show ?thesis
      by (simp add: parseTemplate_def Let_def data_attributes_find selfClosing_element_def)
  next
    assume "attribute_value isA = Some (JSXExpressionContainer (StringLiteral lit))"
    with assms(1,2,3) b show ?thesis
      by (simp add: parseTemplate_def Let_def data_attributes_find selfClosing_element_def)
  qed
  with b show ?thesis by blast
qed

theorem parseTemplate_is_literal_witness:
  "parseTemplate sample_utils sample_visit call_path ''/proj/pages'' [] =
     Some (Inr (None, ReplacedWith (JSXElementExpression
       (JSXElement (JSXOpeningElement (JSXIdentifier ''foo-tmpl'') [sample_data] None)
          (Some (JSXIdentifier ''foo-tmpl'')) [] True None))))"
proof -
  have c: "container call_path"
    by (simp add: call_path_def)
  have n: "find_attribute ''name'' (node call_path) = None"
    by (simp add: call_path_def sample_element_def find_attribute_def sample_data_def)
  have i: "find_attribute ''is'' (node call_path) =
      Some (JSXAttribute (JSXIdentifier ''is'') (Some (StringLiteralValue ''foo'')))"
    by (simp add: call_path_def sample_element_def find_attribute_def)
  have a: "attribute_value (JSXAttribute (JSXIdentifier ''is'')
        (Some (StringLiteralValue ''foo''))) = Some (StringLiteralValue ''foo'') \<or>
      attribute_value (JSXAttribute (JSXIdentifier ''is'')
        (Some (StringLiteralValue ''foo''))) =
        Some (JSXExpressionContainer (StringLiteral ''foo''))"
    by simp
  have w: "\<not> (test_wx ''foo'' \<and> test_wx (drop 2 ''foo''))"
    by simp
  have d: "find_attribute ''data'' (node call_path) = Some sample_data"
    by (simp add: call_path_def sample_element_def find_attribute_def sample_data_def)
  from parseTemplate_is_literal
    [where wxmlVisit = sample_visit and dirPath = "''/proj/pages''" and wxses = "[]"
      and u = sample_utils, OF c n i a w]
  obtain className where
    "buildTemplateName (pascalName sample_utils) ''foo'' True = Some className"
    and p: "parseTemplate sample_utils sample_visit call_path ''/proj/pages'' [] =
       Some (Inr (None, ReplacedWith (JSXElementExpression
         (JSXElement
            (JSXOpeningElement (JSXIdentifier className)
               (case find_attribute ''data'' (node call_path) of
                  None \<Rightarrow> [] | Some d \<Rightarrow> [d]) None)
            (Some (JSXIdentifier className)) [] True None))))"
    by blast
  then have "className = ''foo-tmpl''"
    by (simp add: buildTemplateName_foo)
  with p show ?thesis by (simp add: d)
qed

text \<open>
  C10. A template node with no \<open>name\<close> attribute whose \<open>is\<close> attribute holds, in an
  expression container, an expression that is neither a string literal nor a conditional:
  parseTemplate returns no value, throws nothing and leaves the tree as it is.
\<close>

theorem parseTemplate_is_other_expression:
  assumes "find_attribute ''name'' (node path) = None"
    and "find_attribute ''is'' (node path) = Some isA"
    and "attribute_value isA = Some (JSXExpressionContainer e)"
    and "\<not> isStringLiteral e" and "\<not> isConditional e"
  shows "parseTemplate u wxmlVisit path dirPath wxses = Some (Inr (None, Unchanged))"
  using assms
  by (cases e) (simp_all add: parseTemplate_def Let_def)

theorem parseTemplate_is_other_expression_witness:
  "parseTemplate sample_utils sample_visit computed_call_path ''/proj/pages'' [] =
     Some (Inr (None, Unchanged))"
proof -
  have n: "find_attribute ''name'' (node computed_call_path) = None"
    by (simp add: computed_call_path_def sample_element_def find_attribute_def sample_data_def)
  have i: "find_attribute ''is'' (node computed_call_path) =
      Some (JSXAttribute (JSXIdentifier ''is'')
        (Some (JSXExpressionContainer (Identifier ''which''))))"
    by (simp add: computed_call_path_def sample_element_def find_attribute_def)
  have a: "attribute_value (JSXAttribute (JSXIdentifier ''is'')
      (Some (JSXExpressionContainer (Identifier ''which'')))) =
      Some (JSXExpressionContainer (Identifier ''which''))"
    by simp
  have s: "\<not> isStringLiteral (Identifier ''which'')" by simp
  have k: "\<not> isConditional (Identifier ''which'')" by simp
  from parseTemplate_is_other_expression [OF n i a s k]
  show ?thesis .
qed

section \<open>Claims on preParseTemplate\<close>

lemma pre_visit_error_kind:
  "pre_visit u outer v st = Some (Inl e) \<Longrightarrow> kind_of e = Some TemplateIsAttributeEmptyError"
proof (cases v)
  case (VisitAttribute a)
  obtain fs aps where st: "st = (fs, aps)" by (cases st)
  assume "pre_visit u outer v st = Some (Inl e)"
  with VisitAttribute st show ?thesis
    by (simp split: option.splits jsx_attribute_value.splits expression.splits if_splits)
next
  case (VisitOpeningElement oe)
  obtain fs aps where st: "st = (fs, aps)" by (cases st)
  assume "pre_visit u outer v st = Some (Inl e)"
  with VisitOpeningElement st show ?thesis
    by (auto split: option.splits jsx_attribute_value.splits)
qed

lemma pre_traverse_error_kind:
  "pre_traverse u outer vs st = Some (Inl e) \<Longrightarrow> kind_of e = Some TemplateIsAttributeEmptyError"
proof (induction vs arbitrary: st)
  case Nil
  then show ?case by simp
next
  case (Cons v vs)
  show ?case
  proof (cases "pre_visit u outer v st")
    case None
    with Cons.prems show ?thesis by simp
  next
    case (Some r)
    show ?thesis
    proof (cases r)
      case (Inl e')
      with Some Cons.prems have "e' = e" by simp
      with Inl Some show ?thesis by (simp add: pre_visit_error_kind)
    next
      case (Inr st')
      with Some Cons.prems have "pre_traverse u outer vs st' = Some (Inl e)" by simp
      then show ?thesis by (rule Cons.IH)
    qed
  qed
qed

text \<open>The three ways preParseTemplate goes on, by the \<open>name\<close> attribute.\<close>

lemma preParseTemplate_no_container:
  "\<not> container path \<Longrightarrow> preParseTemplate u path = Some (Inr None)"
  by (simp add: preParseTemplate_def)

lemma preParseTemplate_no_name:
  "find_attribute ''name'' (node path) = None \<Longrightarrow> preParseTemplate u path = Some (Inr None)"
  by (simp add: preParseTemplate_def)

lemma preParseTemplate_name_not_string:
  assumes "container path"
    and "find_attribute ''name'' (node path) = Some nameA"
    and "\<forall>s. attribute_value nameA \<noteq> Some (StringLiteralValue s)"
  shows "preParseTemplate u path =
     Some (Inl (IReportError TemplateNameNotString TemplateNameTypeMismatchError ''WXML_FILE''
       (code_of u (node path)) (position_of (position (node path)))))"
proof (cases "attribute_value nameA")
  case None
  with assms(1,2) show ?thesis by (simp add: preParseTemplate_def)
next
  case (Some w)
  with assms(3) have "\<forall>s. w \<noteq> StringLiteralValue s" by simp
  with Some assms(1,2) show ?thesis
    by (cases w) (simp_all add: preParseTemplate_def)
qed

lemma preParseTemplate_name_string:
  assumes "container path"
    and "find_attribute ''name'' (node path) = Some nameA"
    and "attribute_value nameA = Some (StringLiteralValue s)"
  shows "preParseTemplate u path \<noteq> Some (Inr None) \<and>
     (\<forall>e. preParseTemplate u path = Some (Inl e) \<longrightarrow>
        kind_of e = Some TemplateIsAttributeEmptyError)"
proof (cases "buildTemplateName (pascalName u) s True")
  case None
  with assms show ?thesis by (simp add: preParseTemplate_def)
next
  case (Some templateName)
  show ?thesis
  proof (cases "pre_traverse u (node path) (visits_element (node path)) ([], [])")
    case None
    with Some assms show ?thesis by (simp add: preParseTemplate_def)
  next
    case tr: (Some r)
    show ?thesis
    proof (cases r)
      case (Inl e')
      with tr have "kind_of e' = Some TemplateIsAttributeEmptyError"
        by (simp add: pre_traverse_error_kind)
      with Inl tr Some assms show ?thesis by (simp add: preParseTemplate_def)
    next
      case (Inr st)
      obtain fs aps where "st = (fs, aps)" by (cases st)
      with Inr tr Some assms show ?thesis by (simp add: preParseTemplate_def)
    qed
  qed
qed

text \<open>
  C9, as the claim states it, fails: a node in the tree that has no \<open>name\<close> attribute
  does not meet the requirement, and preParseTemplate returns without a value instead of
  throwing.
\<close>

theorem preParseTemplate_no_name_returns_counterexample:
  "container call_path \<and>
   find_attribute ''name'' (node call_path) = None \<and>
   preParseTemplate sample_utils call_path = Some (Inr None)"
  by (simp add: call_path_def sample_element_def find_attribute_def sample_data_def
      preParseTemplate_def)

text \<open>
  C9, amended. preParseTemplate returns without a value exactly when the node has no
  parent container or has no \<open>name\<close> attribute. When the node has a parent container and
  a \<open>name\<close> attribute whose value is not a string literal, it throws
  TemplateNameTypeMismatchError with the position and the code of the node; it throws an
  error of this kind in no other case.
\<close>

theorem preParseTemplate_name_requirement:
  "((preParseTemplate u path = Some (Inr None)) =
      (\<not> container path \<or> find_attribute ''name'' (node path) = None)) \<and>
   (container path \<and> find_attribute ''name'' (node path) = Some nameA \<and>
    (\<forall>s. attribute_value nameA \<noteq> Some (StringLiteralValue s)) \<longrightarrow>
      preParseTemplate u path =
        Some (Inl (IReportError TemplateNameNotString TemplateNameTypeMismatchError
          ''WXML_FILE'' (code_of u (node path)) (position_of (position (node path)))))) \<and>
   ((\<exists>e. preParseTemplate u path = Some (Inl e) \<and>
          kind_of e = Some TemplateNameTypeMismatchError) =
      (container path \<and>
       (\<exists>a. find_attribute ''name'' (node path) = Some a \<and>
            (\<forall>s. attribute_value a \<noteq> Some (StringLiteralValue s)))))"
proof -
  consider (detached) "\<not> container path"
    | (unnamed) "container path" "find_attribute ''name'' (node path) = None"
    | (bad) a where "container path" "find_attribute ''name'' (node path) = Some a"
        "\<forall>s. attribute_value a \<noteq> Some (StringLiteralValue s)"
    | (good) a s where "container path" "find_attribute ''name'' (node path) = Some a"
        "attribute_value a = Some (StringLiteralValue s)"
    by (cases "find_attribute ''name'' (node path)") auto
  then show ?thesis
  proof cases
    case detached
    then show ?thesis by (simp add: preParseTemplate_no_container)
  next
    case unnamed
    then show ?thesis by (simp add: preParseTemplate_no_name)
  next
    case bad
    from preParseTemplate_name_not_string [OF bad, of u] bad show ?thesis by simp
  next
    case good
    from preParseTemplate_name_string [OF good, of u] good show ?thesis by auto
  qed
qed

theorem preParseTemplate_name_requirement_witness:
  "preParseTemplate sample_utils computed_name_path =
     Some (Inl (IReportError TemplateNameNotString TemplateNameTypeMismatchError ''WXML_FILE''
       ''<template/>'' \<lparr> col = 4, row = 3 \<rparr>))"
proof -
  have c: "container computed_name_path"
    by (simp add: computed_name_path_def)
  have n: "find_attribute ''name'' (node computed_name_path) =
      Some (JSXAttribute (JSXIdentifier ''name'')
        (Some (JSXExpressionContainer (Identifier ''which''))))"
    by (simp add: computed_name_path_def sample_element_def find_attribute_def)
  have a: "\<forall>s. attribute_value (JSXAttribute (JSXIdentifier ''name'')
      (Some (JSXExpressionContainer (Identifier ''which'')))) \<noteq> Some (StringLiteralValue s)"
    by simp
  have k: "code_of sample_utils (node computed_name_path) = ''<template/>''"
    by (simp add: code_of_def sample_utils_def)
  have p: "position_of (position (node computed_name_path)) = \<lparr> col = 4, row = 3 \<rparr>"
    by (simp add: position_of_def computed_name_path_def sample_element_def)
  from preParseTemplate_name_requirement [of sample_utils computed_name_path
      "JSXAttribute (JSXIdentifier ''name'')
         (Some (JSXExpressionContainer (Identifier ''which'')))"] c n a
  have "preParseTemplate sample_utils computed_name_path =
      Some (Inl (IReportError TemplateNameNotString TemplateNameTypeMismatchError ''WXML_FILE''
        (code_of sample_utils (node computed_name_path))
        (position_of (position (node computed_name_path)))))"
    by blast
  then show ?thesis by (simp only: k p)
qed

section \<open>Claims on the conditional branch of parseTemplate\<close>




section \<open>Claims on parseModule\<close>




end
